theory Spec2Isabelle
  imports Main
begin

section \<open>Time values and the calendar of ECMAScript Date objects\<close>

text \<open>
  The hook \<open>useDatePickerNavigation\<close> keeps a \<open>Date\<close> object and moves it with
  \<open>getDate\<close> and \<open>setDate\<close>. A Date object holds one time value: a whole number of
  milliseconds since 1970-01-01T00:00:00Z, or NaN (an Invalid Date). Time values are
  integral and bounded by \<open>8.64e15\<close>, and what the hook computes from them before
  clipping (at most seven days and a zone offset further) stays below \<open>2^53\<close>, so
  the double arithmetic of the language is exact here and numbers are modelled as
  \<open>int\<close>; NaN is \<open>None\<close>.
  The functions below follow the abstract operations of ECMA-262 (Day, TimeWithinDay,
  DaysInYear, DayFromYear, YearFromTime, InLeapYear, MonthFromTime, DateFromTime,
  MakeDay, MakeDate, TimeClip, LocalTime, UTC) under their names there.
\<close>

type_synonym number = "int option"

definition msPerDay :: int where
  "msPerDay = 86400000"

definition maxTime :: int where
  "maxTime = 8640000000000000"

definition Day :: "int \<Rightarrow> int" where
  "Day t = t div msPerDay"

definition TimeWithinDay :: "int \<Rightarrow> int" where
  "TimeWithinDay t = t mod msPerDay"

definition DaysInYear :: "int \<Rightarrow> int" where
  "DaysInYear y =
     (if y mod 4 \<noteq> 0 then 365
      else if y mod 100 \<noteq> 0 then 366
      else if y mod 400 \<noteq> 0 then 365
      else 366)"

definition DayFromYear :: "int \<Rightarrow> int" where
  "DayFromYear y =
     365 * (y - 1970) + (y - 1969) div 4 - (y - 1901) div 100 + (y - 1601) div 400"

text \<open>
  ECMA-262 defines YearFromTime(t) as the largest year \<open>y\<close> whose first day is not after
  \<open>t\<close>. \<open>YearFromDay\<close> computes it: an estimate from the mean length of a Gregorian
  year (146097 days in 400 years), moved by one year where the estimate is off.
  Lemma \<open>YearFromDay_bracket\<close> below proves that it is the year ECMA-262 asks for.
\<close>

definition YearFromDay :: "int \<Rightarrow> int" where
  "YearFromDay d =
     (let y = 1970 + (400 * d) div 146097
      in if d < DayFromYear y then y - 1
         else if DayFromYear (y + 1) \<le> d then y + 1
         else y)"

definition YearFromTime :: "int \<Rightarrow> int" where
  "YearFromTime t = YearFromDay (Day t)"

definition InLeapYear :: "int \<Rightarrow> int" where
  "InLeapYear t = (if DaysInYear (YearFromTime t) = 366 then 1 else 0)"

definition DayWithinYear :: "int \<Rightarrow> int" where
  "DayWithinYear t = Day t - DayFromYear (YearFromTime t)"

definition MonthFromTime :: "int \<Rightarrow> int" where
  "MonthFromTime t =
     (let d = DayWithinYear t; l = InLeapYear t
      in if d < 31 then 0
         else if d < 59 + l then 1
         else if d < 90 + l then 2
         else if d < 120 + l then 3
         else if d < 151 + l then 4
         else if d < 181 + l then 5
         else if d < 212 + l then 6
         else if d < 243 + l then 7
         else if d < 273 + l then 8
         else if d < 304 + l then 9
         else if d < 334 + l then 10
         else 11)"

definition DateFromTime :: "int \<Rightarrow> int" where
  "DateFromTime t =
     (let d = DayWithinYear t; l = InLeapYear t; m = MonthFromTime t
      in if m = 0 then d + 1
         else if m = 1 then d - 30
         else if m = 2 then d - 58 - l
         else if m = 3 then d - 89 - l
         else if m = 4 then d - 119 - l
         else if m = 5 then d - 150 - l
         else if m = 6 then d - 180 - l
         else if m = 7 then d - 211 - l
         else if m = 8 then d - 242 - l
         else if m = 9 then d - 272 - l
         else if m = 10 then d - 303 - l
         else d - 333 - l)"

text \<open>
  The number of days of a year before its month \<open>m\<close> (0 = January), \<open>l\<close> being 1 in a
  leap year: the first day of the month that MakeDay looks for.
\<close>

definition DaysBeforeMonth :: "int \<Rightarrow> int \<Rightarrow> int" where
  "DaysBeforeMonth m l =
     (if m = 0 then 0
      else if m = 1 then 31
      else if m = 2 then 59 + l
      else if m = 3 then 90 + l
      else if m = 4 then 120 + l
      else if m = 5 then 151 + l
      else if m = 6 then 181 + l
      else if m = 7 then 212 + l
      else if m = 8 then 243 + l
      else if m = 9 then 273 + l
      else if m = 10 then 304 + l
      else 334 + l)"

text \<open>
  MakeDay(year, month, date): the day number of the first of the month, plus
  \<open>date - 1\<close>. Year and month come from a time value here, so they are finite; the date
  is the number handed to \<open>setDate\<close> and may be NaN.
\<close>

definition MakeDay :: "int \<Rightarrow> int \<Rightarrow> number \<Rightarrow> number" where
  "MakeDay year month date =
     (case date of
        None \<Rightarrow> None
      | Some dt \<Rightarrow>
          (let ym = year + month div 12;
               mn = month mod 12;
               l = (if DaysInYear ym = 366 then 1 else 0)
           in Some (DayFromYear ym + DaysBeforeMonth mn l + dt - 1)))"

definition MakeDate :: "number \<Rightarrow> int \<Rightarrow> number" where
  "MakeDate day time =
     (case day of None \<Rightarrow> None | Some d \<Rightarrow> Some (d * msPerDay + time))"

definition TimeClip :: "number \<Rightarrow> number" where
  "TimeClip time =
     (case time of
        None \<Rightarrow> None
      | Some t \<Rightarrow> if maxTime < \<bar>t\<bar> then None else Some t)"

text \<open>
  The host's time zone is the parameter \<open>tza\<close>, ECMA-262's LocalTZA(t, isUTC): the
  offset of local time from UTC in milliseconds, asked either at a UTC time value
  (\<open>isUTC\<close>) or at a local one.
\<close>

type_synonym time_zone = "int \<Rightarrow> bool \<Rightarrow> int"

definition LocalTime :: "time_zone \<Rightarrow> int \<Rightarrow> int" where
  "LocalTime tza t = t + tza t True"

definition UTC :: "time_zone \<Rightarrow> number \<Rightarrow> number" where
  "UTC tza time = (case time of None \<Rightarrow> None | Some t \<Rightarrow> Some (t - tza t False))"

section \<open>Date objects, the keyboard event and the hook's state cell\<close>

text \<open>
  Date objects are mutable and held by reference: \<open>setDate\<close> changes the object it is
  called on, and \<open>return focusedDate\<close> hands out the very object in the state. The
  model therefore keeps a store of Date objects by address. \<open>dates w a\<close> is the time
  value of the object at \<open>a\<close>, \<open>nextAddr w\<close> the address the next \<open>new Date\<close>
  gets, and \<open>stateCell w\<close> the cell React keeps for the hook's \<open>useState\<close>:
  \<open>None\<close> until the first render, afterwards the reference last stored.
\<close>

type_synonym addr = nat

record world =
  dates :: "addr \<Rightarrow> number"
  nextAddr :: addr
  stateCell :: "addr option"

text \<open>
  Of the keyboard event the handler reads \<open>key\<close> and calls \<open>preventDefault\<close>; the
  calls are counted.
\<close>

record keyboard_event =
  key :: string
  preventDefaultCalls :: nat

definition preventDefault :: "keyboard_event \<Rightarrow> keyboard_event" where
  "preventDefault event = event\<lparr>preventDefaultCalls := Suc (preventDefaultCalls event)\<rparr>"

text \<open>\<open>new Date(value)\<close> for a Date object \<open>value\<close>: a new object with its time value.\<close>

definition new_Date :: "addr \<Rightarrow> 'a world_scheme \<Rightarrow> addr \<times> 'a world_scheme" where
  "new_Date v w =
     (nextAddr w,
      w\<lparr>dates := (dates w)(nextAddr w := TimeClip (dates w v)),
        nextAddr := Suc (nextAddr w)\<rparr>)"

text \<open>\<open>Date.prototype.getDate\<close>: the day of the month in local time, NaN when invalid.\<close>

definition getDate :: "time_zone \<Rightarrow> addr \<Rightarrow> 'a world_scheme \<Rightarrow> number" where
  "getDate tza a w =
     (case dates w a of
        None \<Rightarrow> None
      | Some t \<Rightarrow> Some (DateFromTime (LocalTime tza t)))"

text \<open>
  \<open>Date.prototype.setDate(date)\<close>: an Invalid Date stays as it is; otherwise the day
  of the month is replaced in local time, the time within the day kept, and the result
  converted back and clipped to the range of Date objects.
\<close>

definition setDate :: "time_zone \<Rightarrow> addr \<Rightarrow> number \<Rightarrow> 'a world_scheme \<Rightarrow> 'a world_scheme" where
  "setDate tza a date w =
     (case dates w a of
        None \<Rightarrow> w
      | Some t0 \<Rightarrow>
          (let t = LocalTime tza t0;
               newDate = MakeDate (MakeDay (YearFromTime t) (MonthFromTime t) date)
                                  (TimeWithinDay t);
               u = TimeClip (UTC tza newDate)
           in w\<lparr>dates := (dates w)(a := u)\<rparr>))"

text \<open>\<open>n + k\<close> on numbers: NaN stays NaN.\<close>

definition plus_number :: "number \<Rightarrow> int \<Rightarrow> number" where
  "plus_number n k = (case n of None \<Rightarrow> None | Some d \<Rightarrow> Some (d + k))"

text \<open>
  \<open>useState(initialState)\<close>: the initial state on the first render, the stored state on
  every later one. \<open>setFocusedDate\<close> stores a new state for the next render.
\<close>

definition useState :: "'a option \<Rightarrow> 'a \<Rightarrow> 'a" where
  "useState cell initialState = (case cell of None \<Rightarrow> initialState | Some s \<Rightarrow> s)"

definition setFocusedDate :: "addr \<Rightarrow> 'a world_scheme \<Rightarrow> 'a world_scheme" where
  "setFocusedDate d w = w\<lparr>stateCell := Some d\<rparr>"

section \<open>The hook\<close>

text \<open>
  \<open>useDatePickerNavigation(initialDate)\<close>, one render: it returns \<open>focusedDate\<close>;
  the \<open>handleKeyDown\<close> it returns beside it is \<open>handleKeyDown tza focusedDate\<close> below,
  the closure over this render's \<open>focusedDate\<close>.
\<close>

definition useDatePickerNavigation :: "addr \<Rightarrow> 'a world_scheme \<Rightarrow> addr \<times> 'a world_scheme" where
  "useDatePickerNavigation initialDate w =
     (let focusedDate = useState (stateCell w) initialDate
      in (focusedDate, w\<lparr>stateCell := Some focusedDate\<rparr>))"

text \<open>
  \<open>handleKeyDown(event)\<close>. The copy is made before the switch, for every key. The
  movement keys fall out of the switch to \<open>preventDefault\<close>, \<open>setFocusedDate\<close> and
  \<open>return null\<close>; the other branches return from inside it. The result is the value
  returned (\<open>None\<close> is null), the event and the world afterwards.
\<close>

definition move :: "time_zone \<Rightarrow> addr \<Rightarrow> int \<Rightarrow> keyboard_event \<Rightarrow> addr \<Rightarrow> 'a world_scheme
    \<Rightarrow> addr option \<times> keyboard_event \<times> 'a world_scheme" where
  "move tza focusedDate k event newFocusedDate w =
     (let w1 = setDate tza newFocusedDate (plus_number (getDate tza focusedDate w) k) w;
          event1 = preventDefault event;
          w2 = setFocusedDate newFocusedDate w1
      in (None, event1, w2))"

definition handleKeyDown :: "time_zone \<Rightarrow> addr \<Rightarrow> keyboard_event \<Rightarrow> 'a world_scheme
    \<Rightarrow> addr option \<times> keyboard_event \<times> 'a world_scheme" where
  "handleKeyDown tza focusedDate event w =
     (let (newFocusedDate, w0) = new_Date focusedDate w
      in if key event = ''ArrowLeft'' then move tza focusedDate (- 1) event newFocusedDate w0
         else if key event = ''ArrowRight'' then move tza focusedDate 1 event newFocusedDate w0
         else if key event = ''ArrowUp'' then move tza focusedDate (- 7) event newFocusedDate w0
         else if key event = ''ArrowDown'' then move tza focusedDate 7 event newFocusedDate w0
         else if key event = ''Enter'' \<or> key event = '' '' then (Some focusedDate, event, w0)
         else if key event = ''Escape'' then (None, event, w0)
         else (None, event, w0))"

text \<open>
  A key press on the mounted hook: the component renders, which gives this render's
  \<open>focusedDate\<close> and handler, and a fresh event for the key is handed to that
  handler.
\<close>

definition keydown :: "string \<Rightarrow> keyboard_event" where
  "keydown k = \<lparr>key = k, preventDefaultCalls = 0\<rparr>"

definition keyDown :: "time_zone \<Rightarrow> addr \<Rightarrow> string \<Rightarrow> 'a world_scheme
    \<Rightarrow> addr option \<times> keyboard_event \<times> 'a world_scheme" where
  "keyDown tza initialDate k w =
     (let (focusedDate, w1) = useDatePickerNavigation initialDate w
      in handleKeyDown tza focusedDate (keydown k) w1)"

text \<open>The world that a call of the handler leaves behind.\<close>

definition after :: "addr option \<times> keyboard_event \<times> 'a world_scheme \<Rightarrow> 'a world_scheme" where
  "after r = snd (snd r)"

section \<open>The assembled Datepicker export\<close>

text \<open>
  The module of the public export imports six components and evaluates
  \<open>Object.assign(Provider, {Picker, Input, Button, Items, Item})\<close>. Components are
  objects held by reference; an object's own properties map names to references.
  \<open>Object.assign\<close> sets each own property of the source on the target, in the
  source's order, and returns the target.
\<close>

type_synonym ref = nat

type_synonym object_store = "ref \<Rightarrow> (string \<rightharpoonup> ref)"

record components =
  Provider :: ref
  Picker :: ref
  Input :: ref
  Button :: ref
  Items :: ref
  Item :: ref

fun Object_assign :: "ref \<Rightarrow> (string \<times> ref) list \<Rightarrow> object_store \<Rightarrow> ref \<times> object_store" where
  "Object_assign target [] h = (target, h)"
| "Object_assign target ((k, v) # source) h =
     Object_assign target source (h(target := (h target)(k \<mapsto> v)))"

definition Datepicker :: "components \<Rightarrow> object_store \<Rightarrow> ref \<times> object_store" where
  "Datepicker c h =
     Object_assign (Provider c)
       [(''Picker'', Picker c), (''Input'', Input c), (''Button'', Button c),
        (''Items'', Items c), (''Item'', Item c)] h"

section \<open>The civil calendar, and sample time zones and worlds\<close>




text \<open>
  A time zone with one offset all year, and a time zone whose offset changes once, from
  \<open>offset0\<close> to \<open>offset1\<close> at the UTC time \<open>at\<close>. For a local time that the change
  skips or repeats, ECMA-262 takes the offset in force before the change.
\<close>

definition zone_fixed :: "int \<Rightarrow> time_zone" where
  "zone_fixed offset t isUTC = offset"

definition zone_change :: "int \<Rightarrow> int \<Rightarrow> int \<Rightarrow> time_zone" where
  "zone_change at offset0 offset1 t isUTC =
     (if isUTC then (if t < at then offset0 else offset1)
      else if t - offset0 < at then offset0
      else if at \<le> t - offset1 then offset1
      else offset0)"

text \<open>
  Pacific/Apia moved across the date line at the end of 29 December 2011: at
  2011-12-30T10:00:00Z the offset went from -10:00 to +14:00, and 30 December did not
  exist there.
\<close>

definition zone_Apia :: time_zone where
  "zone_Apia = zone_change 1325239200000 (- 36000000) 50400000"


text \<open>
  A world with one Date object, at address 0, which the mounted hook holds as its
  focused date.
\<close>

definition mounted :: "number \<Rightarrow> world" where
  "mounted tv =
     \<lparr>dates = (\<lambda>a. if a = 0 then tv else None), nextAddr = 1, stateCell = Some 0\<rparr>"

section \<open>The calendar functions\<close>



















text \<open>
  What \<open>setDate\<close> computes from the fields of a time value: putting the day of the
  month plus \<open>k\<close> back into the year and month of \<open>t\<close> gives the day \<open>k\<close> days from
  the day of \<open>t\<close>, at the same time within the day.
\<close>

lemma MonthFromTime_range: "0 \<le> MonthFromTime t \<and> MonthFromTime t \<le> 11"
  by (simp add: MonthFromTime_def Let_def)

lemma DaysBeforeMonth_DateFromTime:
  "DaysBeforeMonth (MonthFromTime t) (InLeapYear t) + DateFromTime t - 1 = DayWithinYear t"
  by (simp add: DaysBeforeMonth_def DateFromTime_def MonthFromTime_def Let_def)

lemma MakeDay_shift:
  "MakeDay (YearFromTime t) (MonthFromTime t) (Some (DateFromTime t + k)) = Some (Day t + k)"
proof -
  have m: "MonthFromTime t div 12 = 0" "MonthFromTime t mod 12 = MonthFromTime t"
    using MonthFromTime_range [of t] by simp_all
  have "DayFromYear (YearFromTime t) + DaysBeforeMonth (MonthFromTime t) (InLeapYear t)
          + (DateFromTime t + k) - 1 = Day t + k"
    using DaysBeforeMonth_DateFromTime [of t] by (simp add: DayWithinYear_def)
  then show ?thesis
    by (simp add: MakeDay_def m Let_def InLeapYear_def)
qed

lemma MakeDate_shift:
  "MakeDate (Some (Day t + k)) (TimeWithinDay t) = Some (t + k * msPerDay)"
  by (simp add: MakeDate_def Day_def TimeWithinDay_def algebra_simps)



section \<open>The handler on the movement keys\<close>

lemma setDate_copy:
  assumes "dates w a = Some t"
  shows "setDate tza a (Some (DateFromTime (LocalTime tza t) + k)) w =
           w\<lparr>dates := (dates w)(a := TimeClip (UTC tza (Some (LocalTime tza t + k * msPerDay))))\<rparr>"
  using assms by (simp add: setDate_def Let_def MakeDay_shift MakeDate_shift)

lemma TimeClip_in_range: "\<bar>t\<bar> \<le> maxTime \<Longrightarrow> TimeClip (Some t) = Some t"
  by (simp add: TimeClip_def)

lemma move_valid:
  assumes "dates w f = Some t" and "dates w n = Some t"
  shows "move tza f k event n w =
           (None, preventDefault event,
            w\<lparr>dates := (dates w)(n := TimeClip (UTC tza (Some (LocalTime tza t + k * msPerDay)))),
              stateCell := Some n\<rparr>)"
  using assms
  by (simp add: move_def Let_def getDate_def plus_number_def setDate_copy setFocusedDate_def)

lemma handleKeyDown_move:
  assumes valid: "dates w focusedDate = Some t" and clip: "\<bar>t\<bar> \<le> maxTime"
    and ref: "focusedDate < nextAddr w"
    and k: "(key event, k) \<in> {(''ArrowLeft'', - 1), (''ArrowRight'', 1), (''ArrowUp'', - 7), (''ArrowDown'', 7)}"
  shows "handleKeyDown tza focusedDate event w =
           (None, preventDefault event,
            w\<lparr>dates := (dates w)(nextAddr w := TimeClip (UTC tza (Some (LocalTime tza t + k * msPerDay)))),
              nextAddr := Suc (nextAddr w),
              stateCell := Some (nextAddr w)\<rparr>)"
proof -
  let ?w0 = "w\<lparr>dates := (dates w)(nextAddr w := Some t), nextAddr := Suc (nextAddr w)\<rparr>"
  have new: "new_Date focusedDate w = (nextAddr w, ?w0)"
    using valid clip by (simp add: new_Date_def TimeClip_in_range)
  have f: "dates ?w0 focusedDate = Some t" using valid ref by simp
  have n: "dates ?w0 (nextAddr w) = Some t" by simp
  have mv: "\<And>k. move tza focusedDate k event (nextAddr w) ?w0 =
           (None, preventDefault event,
            w\<lparr>dates := (dates w)(nextAddr w := TimeClip (UTC tza (Some (LocalTime tza t + k * msPerDay)))),
              nextAddr := Suc (nextAddr w),
              stateCell := Some (nextAddr w)\<rparr>)"
    using move_valid [OF f n, of tza _ event] by simp
  from k show ?thesis
    by (auto simp add: handleKeyDown_def new mv)
qed


lemma arrow_key_cases:
  "(''ArrowLeft'', - 1) \<in> {(''ArrowLeft'', - 1), (''ArrowRight'', 1), (''ArrowUp'', - 7), (''ArrowDown'', 7 :: int)}"
  "(''ArrowRight'', 1) \<in> {(''ArrowLeft'', - 1), (''ArrowRight'', 1), (''ArrowUp'', - 7), (''ArrowDown'', 7 :: int)}"
  "(''ArrowUp'', - 7) \<in> {(''ArrowLeft'', - 1), (''ArrowRight'', 1), (''ArrowUp'', - 7), (''ArrowDown'', 7 :: int)}"
  "(''ArrowDown'', 7) \<in> {(''ArrowLeft'', - 1), (''ArrowRight'', 1), (''ArrowUp'', - 7), (''ArrowDown'', 7 :: int)}"
  by simp_all


section \<open>The handler on the other keys, and what a key press leaves alone\<close>

lemma new_Date_eq:
  "new_Date focusedDate w =
     (nextAddr w,
      w\<lparr>dates := (dates w)(nextAddr w := TimeClip (dates w focusedDate)),
        nextAddr := Suc (nextAddr w)\<rparr>)"
  by (simp add: new_Date_def)

lemma handleKeyDown_other:
  assumes "key event \<notin> {''ArrowLeft'', ''ArrowRight'', ''ArrowUp'', ''ArrowDown''}"
  shows "handleKeyDown tza focusedDate event w =
           (if key event = ''Enter'' \<or> key event = '' '' then Some focusedDate else None,
            event,
            w\<lparr>dates := (dates w)(nextAddr w := TimeClip (dates w focusedDate)),
              nextAddr := Suc (nextAddr w)\<rparr>)"
  using assms by (simp add: handleKeyDown_def new_Date_eq)

lemma move_event: "fst (snd (move tza focusedDate k event n w)) = preventDefault event"
  by (simp add: move_def Let_def)

lemma setDate_frame:
  "nextAddr (setDate tza a d w) = nextAddr w"
  "stateCell (setDate tza a d w) = stateCell w"
  "b \<noteq> a \<Longrightarrow> dates (setDate tza a d w) b = dates w b"
  by (simp_all add: setDate_def Let_def split: option.splits)

lemma move_frame:
  "nextAddr (after (move tza f k event n w)) = nextAddr w"
  "stateCell (after (move tza f k event n w)) = Some n"
  "b \<noteq> n \<Longrightarrow> dates (after (move tza f k event n w)) b = dates w b"
  by (simp_all add: move_def Let_def after_def setFocusedDate_def setDate_frame)

lemma handleKeyDown_frame:
  "nextAddr (after (handleKeyDown tza f event w)) = Suc (nextAddr w)"
  "stateCell (after (handleKeyDown tza f event w)) =
     (if key event \<in> {''ArrowLeft'', ''ArrowRight'', ''ArrowUp'', ''ArrowDown''}
      then Some (nextAddr w) else stateCell w)"
  "b \<noteq> nextAddr w \<Longrightarrow> dates (after (handleKeyDown tza f event w)) b = dates w b"
proof -
  let ?w0 = "w\<lparr>dates := (dates w)(nextAddr w := TimeClip (dates w f)),
               nextAddr := Suc (nextAddr w)\<rparr>"
  have mv: "\<And>k. after (handleKeyDown tza f event w) = after (move tza f k event (nextAddr w) ?w0)
      \<Longrightarrow> nextAddr (after (handleKeyDown tza f event w)) = Suc (nextAddr w)
        \<and> stateCell (after (handleKeyDown tza f event w)) = Some (nextAddr w)
        \<and> (b \<noteq> nextAddr w \<longrightarrow> dates (after (handleKeyDown tza f event w)) b = dates w b)"
    by (simp add: move_frame)
  have c: "key event \<in> {''ArrowLeft'', ''ArrowRight'', ''ArrowUp'', ''ArrowDown''}
        \<Longrightarrow> \<exists>k. after (handleKeyDown tza f event w) = after (move tza f k event (nextAddr w) ?w0)"
    by (auto simp add: handleKeyDown_def new_Date_eq)
  have all: "nextAddr (after (handleKeyDown tza f event w)) = Suc (nextAddr w)
     \<and> stateCell (after (handleKeyDown tza f event w)) =
     (if key event \<in> {''ArrowLeft'', ''ArrowRight'', ''ArrowUp'', ''ArrowDown''}
      then Some (nextAddr w) else stateCell w)
     \<and> (b \<noteq> nextAddr w \<longrightarrow> dates (after (handleKeyDown tza f event w)) b = dates w b)"
  proof (cases "key event \<in> {''ArrowLeft'', ''ArrowRight'', ''ArrowUp'', ''ArrowDown''}")
    case True
    then show ?thesis using c mv by (metis (no_types, lifting))
  next
    case False
    then show ?thesis by (simp add: handleKeyDown_other after_def)
  qed
  show "nextAddr (after (handleKeyDown tza f event w)) = Suc (nextAddr w)" using all by simp
  show "stateCell (after (handleKeyDown tza f event w)) =
     (if key event \<in> {''ArrowLeft'', ''ArrowRight'', ''ArrowUp'', ''ArrowDown''}
      then Some (nextAddr w) else stateCell w)" using all by simp
  show "b \<noteq> nextAddr w \<Longrightarrow> dates (after (handleKeyDown tza f event w)) b = dates w b"
    using all by simp
qed

lemma keyDown_mounted:
  assumes "stateCell w = Some f"
  shows "keyDown tza i k w = handleKeyDown tza f (keydown k) w"
proof -
  have e: "w\<lparr>stateCell := Some f\<rparr> = w" using assms by simp
  show ?thesis
    by (simp add: keyDown_def useDatePickerNavigation_def useState_def assms e)
qed

lemma keyDown_move:
  assumes "stateCell w = Some f" and "dates w f = Some t" and "\<bar>t\<bar> \<le> maxTime"
    and "f < nextAddr w"
    and "(k, d) \<in> {(''ArrowLeft'', - 1), (''ArrowRight'', 1), (''ArrowUp'', - 7), (''ArrowDown'', 7)}"
  shows "after (keyDown tza i k w) =
           w\<lparr>dates := (dates w)(nextAddr w := TimeClip (UTC tza (Some (LocalTime tza t + d * msPerDay)))),
             nextAddr := Suc (nextAddr w),
             stateCell := Some (nextAddr w)\<rparr>"
proof -
  have k: "(key (keydown k), d) \<in> {(''ArrowLeft'', - 1), (''ArrowRight'', 1), (''ArrowUp'', - 7), (''ArrowDown'', 7)}"
    using assms(5) by (simp add: keydown_def)
  show ?thesis
    using handleKeyDown_move [OF assms(2) assms(3) assms(4) k, of tza]
    by (simp add: keyDown_mounted [OF assms(1)] after_def)
qed

lemma keyDown_move_invalid:
  assumes "stateCell w = Some f" and "dates w f = None"
    and "k \<in> {''ArrowLeft'', ''ArrowRight'', ''ArrowUp'', ''ArrowDown''}"
  shows "after (keyDown tza i k w) =
           w\<lparr>dates := (dates w)(nextAddr w := None),
             nextAddr := Suc (nextAddr w),
             stateCell := Some (nextAddr w)\<rparr>"
proof -
  let ?w0 = "w\<lparr>dates := (dates w)(nextAddr w := None), nextAddr := Suc (nextAddr w)\<rparr>"
  have new: "new_Date f w = (nextAddr w, ?w0)"
    using assms(2) by (simp add: new_Date_def TimeClip_def)
  have mv: "\<And>d e. after (move tza f d e (nextAddr w) ?w0) = ?w0\<lparr>stateCell := Some (nextAddr w)\<rparr>"
    by (simp add: move_def Let_def after_def setDate_def setFocusedDate_def)
  from assms(3) have c: "k = ''ArrowLeft'' \<or> k = ''ArrowRight'' \<or> k = ''ArrowUp'' \<or> k = ''ArrowDown''"
    by simp
  from c have "after (handleKeyDown tza f (keydown k) w) = ?w0\<lparr>stateCell := Some (nextAddr w)\<rparr>"
    by (elim disjE) (simp_all add: handleKeyDown_def new keydown_def mv)
  then show ?thesis
    by (simp add: keyDown_mounted [OF assms(1)])
qed

text \<open>
  The handler on a movement key, for every focused date, valid or not: what it returns,
  and the value of the copy it commits.
\<close>

lemma TimeClip_Some: "TimeClip x = Some t \<Longrightarrow> x = Some t"
  by (simp add: TimeClip_def split: option.splits if_splits)

lemma handleKeyDown_arrow:
  assumes k: "(key event, k) \<in> {(''ArrowLeft'', - 1), (''ArrowRight'', 1),
                                 (''ArrowUp'', - 7), (''ArrowDown'', 7)}"
  shows "handleKeyDown tza focusedDate event w =
           (None, preventDefault event,
            w\<lparr>dates := (dates w)
                (nextAddr w :=
                   (case TimeClip (dates w focusedDate) of
                      None \<Rightarrow> None
                    | Some t \<Rightarrow> TimeClip (UTC tza (Some (LocalTime tza t + k * msPerDay))))),
              nextAddr := Suc (nextAddr w),
              stateCell := Some (nextAddr w)\<rparr>)"
proof -
  let ?n = "nextAddr w"
  let ?w0 = "w\<lparr>dates := (dates w)(?n := TimeClip (dates w focusedDate)), nextAddr := Suc ?n\<rparr>"
  let ?v = "\<lambda>k. case TimeClip (dates w focusedDate) of
                 None \<Rightarrow> None
               | Some t \<Rightarrow> TimeClip (UTC tza (Some (LocalTime tza t + k * msPerDay)))"
  have mv: "\<And>k. move tza focusedDate k event ?n ?w0 =
           (None, preventDefault event,
            w\<lparr>dates := (dates w)(?n := ?v k), nextAddr := Suc ?n, stateCell := Some ?n\<rparr>)"
  proof -
    fix k
    show "move tza focusedDate k event ?n ?w0 =
           (None, preventDefault event,
            w\<lparr>dates := (dates w)(?n := ?v k), nextAddr := Suc ?n, stateCell := Some ?n\<rparr>)"
    proof (cases "TimeClip (dates w focusedDate)")
      case None
      then show ?thesis
        by (simp add: move_def Let_def setDate_def setFocusedDate_def)
    next
      case (Some t)
      then have d: "dates w focusedDate = Some t" by (rule TimeClip_Some)
      have f: "dates ?w0 focusedDate = Some t" using d Some by simp
      have n: "dates ?w0 ?n = Some t" using Some by simp
      show ?thesis
        using move_valid [OF f n, of tza k event] Some by simp
    qed
  qed
  from k show ?thesis
    by (auto simp add: handleKeyDown_def new_Date_eq mv)
qed



section \<open>The assembled export\<close>

lemma Datepicker_eq:
  "Datepicker c h =
     (Provider c,
      h(Provider c := (h (Provider c))
          (''Picker'' \<mapsto> Picker c, ''Input'' \<mapsto> Input c, ''Button'' \<mapsto> Button c,
           ''Items'' \<mapsto> Items c, ''Item'' \<mapsto> Item c)))"
  by (simp add: Datepicker_def)

section \<open>Claims\<close>




text \<open>
  C2. For every focused date \<open>D\<close>, \<open>handleKeyDown\<close> with key Enter or Space returns \<open>D\<close>
  itself, the reference held in the state, and leaves the focused-date state as it
  is: the state cell is not written, \<open>preventDefault\<close> is not called, and no Date
  object that existed before the call changes. The copy made before the switch is a
  new object that nothing refers to.
\<close>

theorem handleKeyDown_Enter_Space:
  assumes "key event = ''Enter'' \<or> key event = '' ''"
  shows "handleKeyDown tza focusedDate event w =
           (Some focusedDate, event,
            w\<lparr>dates := (dates w)(nextAddr w := TimeClip (dates w focusedDate)),
              nextAddr := Suc (nextAddr w)\<rparr>)
         \<and> stateCell (after (handleKeyDown tza focusedDate event w)) = stateCell w
         \<and> (\<forall>a. a < nextAddr w \<longrightarrow>
               dates (after (handleKeyDown tza focusedDate event w)) a = dates w a)"
proof -
  have "key event \<notin> {''ArrowLeft'', ''ArrowRight'', ''ArrowUp'', ''ArrowDown''}"
    using assms by auto
  then show ?thesis
    using assms by (simp add: handleKeyDown_other after_def)
qed

theorem handleKeyDown_Enter_Space_witness:
  "(key (keydown ''Enter'') = ''Enter'' \<or> key (keydown ''Enter'') = '' '')
   \<and> fst (handleKeyDown (zone_fixed 0) 0 (keydown ''Enter'') (mounted (Some 1706731200000))) = Some 0
   \<and> fst (snd (handleKeyDown (zone_fixed 0) 0 (keydown ''Enter'') (mounted (Some 1706731200000))))
        = keydown ''Enter''
   \<and> stateCell (after (handleKeyDown (zone_fixed 0) 0 (keydown ''Enter'')
                        (mounted (Some 1706731200000)))) = Some 0
   \<and> dates (after (handleKeyDown (zone_fixed 0) 0 (keydown ''Enter'')
                        (mounted (Some 1706731200000)))) 0 = Some 1706731200000"
proof -
  have h: "key (keydown ''Enter'') = ''Enter'' \<or> key (keydown ''Enter'') = '' ''"
    by (simp add: keydown_def)
  note r = handleKeyDown_Enter_Space [OF h, of "zone_fixed 0" 0 "mounted (Some 1706731200000)"]
  from r h show ?thesis by (simp add: mounted_def after_def)
qed

text \<open>
  C3. For every initial date \<open>D\<close>, the first render of the hook (its state cell still
  empty) returns \<open>D\<close> as \<open>focusedDate\<close>, the caller's own object, with no handler
  called; nothing but the state cell is written.
\<close>

theorem useDatePickerNavigation_initial:
  assumes "stateCell w = None"
  shows "fst (useDatePickerNavigation initialDate w) = initialDate
         \<and> snd (useDatePickerNavigation initialDate w) = w\<lparr>stateCell := Some initialDate\<rparr>"
  using assms by (simp add: useDatePickerNavigation_def useState_def)

theorem useDatePickerNavigation_initial_witness:
  "stateCell \<lparr>dates = (\<lambda>a. if a = 0 then Some 1706731200000 else None),
              nextAddr = 1, stateCell = None\<rparr> = None
   \<and> fst (useDatePickerNavigation 0
            \<lparr>dates = (\<lambda>a. if a = 0 then Some 1706731200000 else None),
             nextAddr = 1, stateCell = None\<rparr>) = 0
   \<and> snd (useDatePickerNavigation 0
            \<lparr>dates = (\<lambda>a. if a = 0 then Some 1706731200000 else None),
             nextAddr = 1, stateCell = None\<rparr>) = mounted (Some 1706731200000)"
proof -
  let ?w = "\<lparr>dates = (\<lambda>a. if a = 0 then Some 1706731200000 else None),
              nextAddr = 1, stateCell = None\<rparr>"
  have h: "stateCell ?w = None" by simp
  show ?thesis
    using h useDatePickerNavigation_initial [OF h, of 0] by (simp add: mounted_def)
qed

text \<open>
  C4. For every focused date, \<open>handleKeyDown\<close> with key Escape returns null and
  leaves the focused-date state as it is. It closes no panel: the event, the state
  cell, every Date object that existed and whatever else the world holds beside the
  hook's own state (the extension of the record) are unchanged.
\<close>

theorem handleKeyDown_Escape:
  assumes "key event = ''Escape''"
  shows "handleKeyDown tza focusedDate event w =
           (None, event,
            w\<lparr>dates := (dates w)(nextAddr w := TimeClip (dates w focusedDate)),
              nextAddr := Suc (nextAddr w)\<rparr>)
         \<and> stateCell (after (handleKeyDown tza focusedDate event w)) = stateCell w
         \<and> (\<forall>a. a < nextAddr w \<longrightarrow>
               dates (after (handleKeyDown tza focusedDate event w)) a = dates w a)
         \<and> world.more (after (handleKeyDown tza focusedDate event w)) = world.more w"
proof -
  have "key event \<notin> {''ArrowLeft'', ''ArrowRight'', ''ArrowUp'', ''ArrowDown''}"
    using assms by simp
  then show ?thesis
    using assms by (simp add: handleKeyDown_other after_def)
qed

theorem handleKeyDown_Escape_witness:
  "key (keydown ''Escape'') = ''Escape''
   \<and> fst (handleKeyDown (zone_fixed 0) 0 (keydown ''Escape'') (mounted (Some 1706731200000))) = None
   \<and> fst (snd (handleKeyDown (zone_fixed 0) 0 (keydown ''Escape'') (mounted (Some 1706731200000))))
        = keydown ''Escape''
   \<and> stateCell (after (handleKeyDown (zone_fixed 0) 0 (keydown ''Escape'')
                        (mounted (Some 1706731200000)))) = Some 0
   \<and> dates (after (handleKeyDown (zone_fixed 0) 0 (keydown ''Escape'')
                        (mounted (Some 1706731200000)))) 0 = Some 1706731200000"
proof -
  have h: "key (keydown ''Escape'') = ''Escape''"
    by (simp add: keydown_def)
  note r = handleKeyDown_Escape [OF h, of "zone_fixed 0" 0 "mounted (Some 1706731200000)"]
  from r h show ?thesis by (simp add: mounted_def after_def)
qed

text \<open>
  C5. For every focused date and every key other than ArrowLeft, ArrowRight, ArrowUp,
  ArrowDown, Enter, Space and Escape, \<open>handleKeyDown\<close> returns null and leaves the
  focused-date state as it is; it is a result like any other, not an error.
\<close>

theorem handleKeyDown_unrecognised:
  assumes "key event \<notin> {''ArrowLeft'', ''ArrowRight'', ''ArrowUp'', ''ArrowDown'',
                          ''Enter'', '' '', ''Escape''}"
  shows "handleKeyDown tza focusedDate event w =
           (None, event,
            w\<lparr>dates := (dates w)(nextAddr w := TimeClip (dates w focusedDate)),
              nextAddr := Suc (nextAddr w)\<rparr>)
         \<and> stateCell (after (handleKeyDown tza focusedDate event w)) = stateCell w
         \<and> (\<forall>a. a < nextAddr w \<longrightarrow>
               dates (after (handleKeyDown tza focusedDate event w)) a = dates w a)"
proof -
  have "key event \<notin> {''ArrowLeft'', ''ArrowRight'', ''ArrowUp'', ''ArrowDown''}"
    using assms by simp
  then show ?thesis
    using assms by (simp add: handleKeyDown_other after_def)
qed

theorem handleKeyDown_unrecognised_witness:
  "key (keydown ''Tab'') \<notin> {''ArrowLeft'', ''ArrowRight'', ''ArrowUp'', ''ArrowDown'',
                              ''Enter'', '' '', ''Escape''}
   \<and> fst (handleKeyDown (zone_fixed 0) 0 (keydown ''Tab'') (mounted (Some 1706731200000))) = None
   \<and> fst (snd (handleKeyDown (zone_fixed 0) 0 (keydown ''Tab'') (mounted (Some 1706731200000))))
        = keydown ''Tab''
   \<and> stateCell (after (handleKeyDown (zone_fixed 0) 0 (keydown ''Tab'')
                        (mounted (Some 1706731200000)))) = Some 0
   \<and> dates (after (handleKeyDown (zone_fixed 0) 0 (keydown ''Tab'')
                        (mounted (Some 1706731200000)))) 0 = Some 1706731200000"
proof -
  have h: "key (keydown ''Tab'') \<notin> {''ArrowLeft'', ''ArrowRight'', ''ArrowUp'', ''ArrowDown'',
                              ''Enter'', '' '', ''Escape''}"
    by (simp add: keydown_def)
  note r = handleKeyDown_unrecognised [OF h, of "zone_fixed 0" 0 "mounted (Some 1706731200000)"]
  from r h show ?thesis by (simp add: mounted_def after_def)
qed

text \<open>
  C6. \<open>handleKeyDown\<close> calls \<open>preventDefault\<close> on the event, once, exactly when the key
  is ArrowLeft, ArrowRight, ArrowUp or ArrowDown; for every other key, Enter, Space
  and Escape among them, the event is left as it was.
\<close>

theorem handleKeyDown_preventDefault:
  "fst (snd (handleKeyDown tza focusedDate event w)) =
     (if key event \<in> {''ArrowLeft'', ''ArrowRight'', ''ArrowUp'', ''ArrowDown''}
      then preventDefault event else event)
   \<and> preventDefaultCalls (fst (snd (handleKeyDown tza focusedDate event w))) =
     preventDefaultCalls event +
       (if key event \<in> {''ArrowLeft'', ''ArrowRight'', ''ArrowUp'', ''ArrowDown''} then 1 else 0)"
proof (cases "key event \<in> {''ArrowLeft'', ''ArrowRight'', ''ArrowUp'', ''ArrowDown''}")
  case True
  then have "fst (snd (handleKeyDown tza focusedDate event w)) = preventDefault event"
    by (auto simp add: handleKeyDown_def new_Date_eq move_event)
  then show ?thesis using True by (simp add: preventDefault_def)
next
  case False
  then show ?thesis by (simp add: handleKeyDown_other)
qed

text \<open>
  C7. For every key and every focused date \<open>D\<close> (an object allocated before the call),
  \<open>handleKeyDown\<close> does not change \<open>D\<close> nor any other Date object that existed. It
  allocates one new object, which \<open>new Date\<close> makes a copy of \<open>D\<close> (the time value of
  \<open>D\<close>). On a key that does not move, that object keeps the value of \<open>D\<close> and the
  state is not written. On a movement key the day arithmetic is done on that object:
  afterwards it holds the value of \<open>D\<close> moved by the key's days, and the state is the
  reference to it.
\<close>

theorem handleKeyDown_never_mutates:
  assumes "focusedDate < nextAddr w"
  shows "dates (after (handleKeyDown tza focusedDate event w)) focusedDate = dates w focusedDate
         \<and> (\<forall>a. a < nextAddr w \<longrightarrow>
               dates (after (handleKeyDown tza focusedDate event w)) a = dates w a)
         \<and> nextAddr (after (handleKeyDown tza focusedDate event w)) = Suc (nextAddr w)
         \<and> (key event \<notin> {''ArrowLeft'', ''ArrowRight'', ''ArrowUp'', ''ArrowDown''} \<longrightarrow>
               stateCell (after (handleKeyDown tza focusedDate event w)) = stateCell w
               \<and> dates (after (handleKeyDown tza focusedDate event w)) (nextAddr w)
                   = TimeClip (dates w focusedDate))
         \<and> (\<forall>k. (key event, k) \<in> {(''ArrowLeft'', - 1), (''ArrowRight'', 1),
                                     (''ArrowUp'', - 7), (''ArrowDown'', 7)} \<longrightarrow>
               stateCell (after (handleKeyDown tza focusedDate event w)) = Some (nextAddr w)
               \<and> dates (after (handleKeyDown tza focusedDate event w)) (nextAddr w)
                   = (case TimeClip (dates w focusedDate) of
                        None \<Rightarrow> None
                      | Some t \<Rightarrow> TimeClip (UTC tza (Some (LocalTime tza t + k * msPerDay)))))
         \<and> (\<forall>t. dates w focusedDate = Some t \<and> \<bar>t\<bar> \<le> maxTime \<longrightarrow>
               dates (snd (new_Date focusedDate w)) (fst (new_Date focusedDate w)) = Some t
               \<and> fst (new_Date focusedDate w) = nextAddr w)"
proof (intro conjI allI impI)
  show "dates (after (handleKeyDown tza focusedDate event w)) focusedDate = dates w focusedDate"
    using assms by (simp add: handleKeyDown_frame)
  show "nextAddr (after (handleKeyDown tza focusedDate event w)) = Suc (nextAddr w)"
    by (simp add: handleKeyDown_frame)
next
  fix a assume "a < nextAddr w"
  then show "dates (after (handleKeyDown tza focusedDate event w)) a = dates w a"
    by (simp add: handleKeyDown_frame)
next
  assume o: "key event \<notin> {''ArrowLeft'', ''ArrowRight'', ''ArrowUp'', ''ArrowDown''}"
  show "stateCell (after (handleKeyDown tza focusedDate event w)) = stateCell w"
    by (simp add: handleKeyDown_other [OF o] after_def)
  show "dates (after (handleKeyDown tza focusedDate event w)) (nextAddr w)
          = TimeClip (dates w focusedDate)"
    by (simp add: handleKeyDown_other [OF o] after_def)
next
  fix k :: int
  assume k: "(key event, k) \<in> {(''ArrowLeft'', - 1), (''ArrowRight'', 1),
                                 (''ArrowUp'', - 7), (''ArrowDown'', 7)}"
  show "stateCell (after (handleKeyDown tza focusedDate event w)) = Some (nextAddr w)"
    by (simp add: handleKeyDown_arrow [OF k] after_def)
  show "dates (after (handleKeyDown tza focusedDate event w)) (nextAddr w)
          = (case TimeClip (dates w focusedDate) of
               None \<Rightarrow> None
             | Some t \<Rightarrow> TimeClip (UTC tza (Some (LocalTime tza t + k * msPerDay))))"
    by (simp add: handleKeyDown_arrow [OF k] after_def)
next
  fix t assume t: "dates w focusedDate = Some t \<and> \<bar>t\<bar> \<le> maxTime"
  then show "dates (snd (new_Date focusedDate w)) (fst (new_Date focusedDate w)) = Some t"
    by (simp add: new_Date_eq TimeClip_in_range)
  show "fst (new_Date focusedDate w) = nextAddr w"
    by (simp add: new_Date_eq)
qed

theorem handleKeyDown_never_mutates_witness:
  "0 < nextAddr (mounted (Some 1706731200000))
   \<and> (key (keydown ''ArrowDown''), 7) \<in> {(''ArrowLeft'', - 1), (''ArrowRight'', 1),
                               (''ArrowUp'', - 7), (''ArrowDown'', 7 :: int)}
   \<and> key (keydown ''Enter'') \<notin> {''ArrowLeft'', ''ArrowRight'', ''ArrowUp'', ''ArrowDown''}
   \<and> dates (mounted (Some 1706731200000)) 0 = Some 1706731200000
   \<and> \<bar>1706731200000\<bar> \<le> maxTime
   \<and> dates (after (handleKeyDown (zone_fixed 0) 0 (keydown ''ArrowDown'')
                      (mounted (Some 1706731200000)))) 0 = Some 1706731200000
   \<and> dates (after (handleKeyDown (zone_fixed 0) 0 (keydown ''ArrowDown'')
                      (mounted (Some 1706731200000)))) 1 = Some 1707336000000
   \<and> stateCell (after (handleKeyDown (zone_fixed 0) 0 (keydown ''ArrowDown'')
                      (mounted (Some 1706731200000)))) = Some 1
   \<and> nextAddr (after (handleKeyDown (zone_fixed 0) 0 (keydown ''ArrowDown'')
                      (mounted (Some 1706731200000)))) = 2
   \<and> dates (after (handleKeyDown (zone_fixed 0) 0 (keydown ''Enter'')
                      (mounted (Some 1706731200000)))) 1 = Some 1706731200000
   \<and> stateCell (after (handleKeyDown (zone_fixed 0) 0 (keydown ''Enter'')
                      (mounted (Some 1706731200000)))) = Some 0
   \<and> dates (snd (new_Date 0 (mounted (Some 1706731200000))))
        (fst (new_Date 0 (mounted (Some 1706731200000)))) = Some 1706731200000"
proof -
  let ?z = "zone_fixed 0"
  let ?w = "mounted (Some 1706731200000)"
  have h: "0 < nextAddr ?w" by (simp add: mounted_def)
  have k: "(key (keydown ''ArrowDown''), 7) \<in> {(''ArrowLeft'', - 1), (''ArrowRight'', 1),
                               (''ArrowUp'', - 7), (''ArrowDown'', 7 :: int)}"
    by (simp add: keydown_def)
  have o: "key (keydown ''Enter'') \<notin> {''ArrowLeft'', ''ArrowRight'', ''ArrowUp'', ''ArrowDown''}"
    by (simp add: keydown_def)
  have v: "dates ?w 0 = Some 1706731200000" by (simp add: mounted_def)
  have c: "\<bar>1706731200000\<bar> \<le> maxTime" by (simp add: maxTime_def)
  have n: "nextAddr ?w = 1" "stateCell ?w = Some 0" by (simp_all add: mounted_def)
  have tc: "TimeClip (dates ?w 0) = Some 1706731200000"
    by (simp add: mounted_def TimeClip_def maxTime_def)
  have sh: "TimeClip (UTC ?z (Some (LocalTime ?z 1706731200000 + 7 * msPerDay)))
              = Some 1707336000000"
    by (simp add: TimeClip_def UTC_def LocalTime_def zone_fixed_def maxTime_def msPerDay_def)
  note d = handleKeyDown_never_mutates [OF h, of ?z "keydown ''ArrowDown''"]
  note e = handleKeyDown_never_mutates [OF h, of ?z "keydown ''Enter''"]
  from d have d1: "dates (after (handleKeyDown ?z 0 (keydown ''ArrowDown'') ?w)) 0 = dates ?w 0"
    and d2: "nextAddr (after (handleKeyDown ?z 0 (keydown ''ArrowDown'') ?w)) = Suc (nextAddr ?w)"
    by blast+
  from d k have d3: "stateCell (after (handleKeyDown ?z 0 (keydown ''ArrowDown'') ?w))
                       = Some (nextAddr ?w)
      \<and> dates (after (handleKeyDown ?z 0 (keydown ''ArrowDown'') ?w)) (nextAddr ?w)
          = (case TimeClip (dates ?w 0) of
               None \<Rightarrow> None
             | Some t \<Rightarrow> TimeClip (UTC ?z (Some (LocalTime ?z t + 7 * msPerDay))))"
    by blast
  from e o have e1: "stateCell (after (handleKeyDown ?z 0 (keydown ''Enter'') ?w)) = stateCell ?w
      \<and> dates (after (handleKeyDown ?z 0 (keydown ''Enter'') ?w)) (nextAddr ?w)
          = TimeClip (dates ?w 0)"
    by blast
  from d v c have d4: "dates (snd (new_Date 0 ?w)) (fst (new_Date 0 ?w)) = Some 1706731200000"
    by blast
  from d1 have f1: "dates (after (handleKeyDown ?z 0 (keydown ''ArrowDown'') ?w)) 0
                      = Some 1706731200000"
    by (simp add: v)
  from d2 have f2: "nextAddr (after (handleKeyDown ?z 0 (keydown ''ArrowDown'') ?w)) = 2"
    by (simp add: n)
  from d3 have f3: "stateCell (after (handleKeyDown ?z 0 (keydown ''ArrowDown'') ?w)) = Some 1"
    and f4: "dates (after (handleKeyDown ?z 0 (keydown ''ArrowDown'') ?w)) 1 = Some 1707336000000"
    by (simp_all add: n tc sh)
  from e1 have f5: "stateCell (after (handleKeyDown ?z 0 (keydown ''Enter'') ?w)) = Some 0"
    and f6: "dates (after (handleKeyDown ?z 0 (keydown ''Enter'') ?w)) 1 = Some 1706731200000"
    by (simp_all add: n tc)
  show ?thesis
    using h k o v c f1 f2 f3 f4 f5 f6 d4 by blast
qed

text \<open>
  C8. The properties Button, Input, Picker, Items and Item of the exported
  \<open>Datepicker\<close> are the very components that the module imports, and assembling the
  export changes no object other than \<open>Provider\<close>.
\<close>

theorem Datepicker_subcomponents:
  "snd (Datepicker c h) (fst (Datepicker c h)) ''Button'' = Some (Button c)
   \<and> snd (Datepicker c h) (fst (Datepicker c h)) ''Input'' = Some (Input c)
   \<and> snd (Datepicker c h) (fst (Datepicker c h)) ''Picker'' = Some (Picker c)
   \<and> snd (Datepicker c h) (fst (Datepicker c h)) ''Items'' = Some (Items c)
   \<and> snd (Datepicker c h) (fst (Datepicker c h)) ''Item'' = Some (Item c)
   \<and> (\<forall>r. r \<noteq> Provider c \<longrightarrow> snd (Datepicker c h) r = h r)"
  by (simp add: Datepicker_eq)

theorem Datepicker_subcomponents_witness:
  "snd (Datepicker \<lparr>Provider = 0, Picker = 1, Input = 2, Button = 3, Items = 4, Item = 5\<rparr>
         (\<lambda>r. Map.empty))
       (fst (Datepicker \<lparr>Provider = 0, Picker = 1, Input = 2, Button = 3, Items = 4, Item = 5\<rparr>
         (\<lambda>r. Map.empty))) ''Button'' = Some 3
   \<and> (3::nat) \<noteq> 0
   \<and> snd (Datepicker \<lparr>Provider = 0, Picker = 1, Input = 2, Button = 3, Items = 4, Item = 5\<rparr>
         (\<lambda>r. Map.empty)) 3 = Map.empty"
  using Datepicker_subcomponents
    [of "\<lparr>Provider = 0, Picker = 1, Input = 2, Button = 3, Items = 4, Item = 5\<rparr>" "\<lambda>r. Map.empty"]
  by simp

text \<open>
  C9, as amended. Let the focused date \<open>D\<close> be a valid Date with time value \<open>t\<close>, held
  by the mounted hook, and let the first key move by \<open>d\<close> days and the second be its
  opposite. If the time value \<open>u\<close> of the local time \<open>d\<close> days from that of \<open>D\<close> is within
  the range of Date objects, and the host's time zone reads both \<open>u\<close> and \<open>t\<close> back as
  the local times they came from (neither local time is skipped or repeated by a change
  of offset), then after the two key presses the focused date is a Date with time value
  \<open>t\<close> again.
\<close>

theorem opposite_keys_cancel:
  assumes mounted: "stateCell w = Some focusedDate"
    and valid: "dates w focusedDate = Some t" and clip: "\<bar>t\<bar> \<le> maxTime"
    and ref: "focusedDate < nextAddr w"
    and keys: "(k1, k2, d) \<in> {(''ArrowLeft'', ''ArrowRight'', - 1), (''ArrowRight'', ''ArrowLeft'', 1),
                               (''ArrowUp'', ''ArrowDown'', - 7), (''ArrowDown'', ''ArrowUp'', 7)}"
    and l: "l = LocalTime tza t + d * msPerDay"
    and u: "u = l - tza l False"
    and range: "\<bar>u\<bar> \<le> maxTime"
    and zone: "tza u True = tza l False"
    and zone0: "tza (LocalTime tza t) False = tza t True"
  shows "stateCell (after (keyDown tza i k2 (after (keyDown tza i k1 w)))) = Some (Suc (nextAddr w))
         \<and> dates (after (keyDown tza i k2 (after (keyDown tza i k1 w)))) (Suc (nextAddr w)) = Some t
         \<and> fst (useDatePickerNavigation i (after (keyDown tza i k2 (after (keyDown tza i k1 w)))))
             = Suc (nextAddr w)"
proof -
  let ?n = "nextAddr w"
  let ?w1 = "w\<lparr>dates := (dates w)(?n := Some u), nextAddr := Suc ?n, stateCell := Some ?n\<rparr>"
  have k1: "(k1, d) \<in> {(''ArrowLeft'', - 1), (''ArrowRight'', 1), (''ArrowUp'', - 7), (''ArrowDown'', 7)}"
    and k2: "(k2, - d) \<in> {(''ArrowLeft'', - 1), (''ArrowRight'', 1), (''ArrowUp'', - 7), (''ArrowDown'', 7)}"
  proof -
    from keys have c: "k1 = ''ArrowLeft'' \<and> k2 = ''ArrowRight'' \<and> d = - 1
        \<or> k1 = ''ArrowRight'' \<and> k2 = ''ArrowLeft'' \<and> d = 1
        \<or> k1 = ''ArrowUp'' \<and> k2 = ''ArrowDown'' \<and> d = - 7
        \<or> k1 = ''ArrowDown'' \<and> k2 = ''ArrowUp'' \<and> d = 7"
      by simp
    from c show "(k1, d) \<in> {(''ArrowLeft'', - 1), (''ArrowRight'', 1), (''ArrowUp'', - 7), (''ArrowDown'', 7)}"
      by (elim disjE conjE) simp_all
    from c show "(k2, - d) \<in> {(''ArrowLeft'', - 1), (''ArrowRight'', 1), (''ArrowUp'', - 7), (''ArrowDown'', 7)}"
      by (elim disjE conjE) simp_all
  qed
  have new: "TimeClip (UTC tza (Some (LocalTime tza t + d * msPerDay))) = Some u"
    using range by (simp add: UTC_def l u TimeClip_in_range)
  have first: "after (keyDown tza i k1 w) = ?w1"
    using keyDown_move [OF mounted valid clip ref k1, of tza i] by (simp add: new)
  have "LocalTime tza u = u + tza l False"
    using zone by (simp add: LocalTime_def)
  then have loc: "LocalTime tza u - d * msPerDay = LocalTime tza t"
    using u l by simp
  have ret: "TimeClip (UTC tza (Some (LocalTime tza u - d * msPerDay))) = Some t"
    unfolding loc using zone0 clip by (simp add: UTC_def TimeClip_in_range LocalTime_def)
  have m1: "stateCell ?w1 = Some ?n" and v1: "dates ?w1 ?n = Some u" and r1: "?n < nextAddr ?w1"
    by simp_all
  have second: "after (keyDown tza i k2 ?w1) =
      ?w1\<lparr>dates := (dates ?w1)(Suc ?n := Some t), nextAddr := Suc (Suc ?n), stateCell := Some (Suc ?n)\<rparr>"
    using keyDown_move [OF m1 v1 range r1 k2, of tza i] by (simp add: ret)
  show ?thesis
    unfolding first second by (simp add: useDatePickerNavigation_def useState_def)
qed

theorem opposite_keys_cancel_witness:
  "stateCell (mounted (Some 1706731200000)) = Some 0
   \<and> dates (mounted (Some 1706731200000)) 0 = Some 1706731200000
   \<and> \<bar>1706731200000\<bar> \<le> maxTime
   \<and> 0 < nextAddr (mounted (Some 1706731200000))
   \<and> \<bar>1706644800000\<bar> \<le> maxTime
   \<and> zone_fixed 12600000 1706644800000 True = zone_fixed 12600000 1706657400000 False
   \<and> zone_fixed 12600000 (LocalTime (zone_fixed 12600000) 1706731200000) False
         = zone_fixed 12600000 1706731200000 True
   \<and> stateCell (after (keyDown (zone_fixed 12600000) 0 ''ArrowRight''
          (after (keyDown (zone_fixed 12600000) 0 ''ArrowLeft'' (mounted (Some 1706731200000))))))
         = Some 2
   \<and> dates (after (keyDown (zone_fixed 12600000) 0 ''ArrowRight''
          (after (keyDown (zone_fixed 12600000) 0 ''ArrowLeft'' (mounted (Some 1706731200000))))))
          2 = Some 1706731200000"
proof -
  let ?z = "zone_fixed 12600000"
  let ?w = "mounted (Some 1706731200000)"
  have h1: "stateCell ?w = Some 0" by (simp add: mounted_def)
  have h2: "dates ?w 0 = Some 1706731200000" by (simp add: mounted_def)
  have h3: "\<bar>1706731200000\<bar> \<le> maxTime" by (simp add: maxTime_def)
  have h4: "0 < nextAddr ?w" by (simp add: mounted_def)
  have h5: "(''ArrowLeft'', ''ArrowRight'', - 1)
      \<in> {(''ArrowLeft'', ''ArrowRight'', - 1), (''ArrowRight'', ''ArrowLeft'', 1),
         (''ArrowUp'', ''ArrowDown'', - 7), (''ArrowDown'', ''ArrowUp'', 7 :: int)}"
    by simp
  have h6: "1706657400000 = LocalTime ?z 1706731200000 + - 1 * msPerDay"
    by (simp add: LocalTime_def zone_fixed_def msPerDay_def)
  have h7: "1706644800000 = 1706657400000 - ?z 1706657400000 False"
    by (simp add: zone_fixed_def)
  have h8: "\<bar>1706644800000\<bar> \<le> maxTime" by (simp add: maxTime_def)
  have h9: "?z 1706644800000 True = ?z 1706657400000 False" by (simp add: zone_fixed_def)
  have h10: "?z (LocalTime ?z 1706731200000) False = ?z 1706731200000 True"
    by (simp add: zone_fixed_def)
  have n: "Suc (nextAddr ?w) = 2" by (simp add: mounted_def)
  note r = opposite_keys_cancel [OF h1 h2 h3 h4 h5 h6 h7 h8 h9 h10, of 0, unfolded n]
  show ?thesis using h1 h2 h3 h4 h8 h9 h10 r by blast
qed

text \<open>
  C9 as stated, for every focused date, fails in two ways. From the first time value of
  the Date range (20 April -271821) ArrowLeft gives an Invalid Date, and ArrowRight
  leaves it invalid. In Pacific/Apia, from noon of 31 December 2011, ArrowLeft asks for
  noon of 30 December, which does not exist there and is read as noon of 31 December,
  so that ArrowRight then ends at noon of 1 January 2012.
\<close>

theorem opposite_keys_cancel_counterexample:
  "stateCell (after (keyDown (zone_fixed 0) 0 ''ArrowRight''
      (after (keyDown (zone_fixed 0) 0 ''ArrowLeft'' (mounted (Some (- maxTime))))))) = Some 2
   \<and> dates (after (keyDown (zone_fixed 0) 0 ''ArrowRight''
      (after (keyDown (zone_fixed 0) 0 ''ArrowLeft'' (mounted (Some (- maxTime))))))) 2 = None
   \<and> stateCell (after (keyDown zone_Apia 0 ''ArrowRight''
      (after (keyDown zone_Apia 0 ''ArrowLeft'' (mounted (Some 1325282400000)))))) = Some 2
   \<and> dates (after (keyDown zone_Apia 0 ''ArrowRight''
      (after (keyDown zone_Apia 0 ''ArrowLeft'' (mounted (Some 1325282400000)))))) 2
        = Some 1325368800000"
proof -
  let ?a = "mounted (Some (- maxTime))"
  let ?a1 = "?a\<lparr>dates := (dates ?a)(1 := None), nextAddr := 2, stateCell := Some 1\<rparr>"
  have a0: "stateCell ?a = Some 0" "dates ?a 0 = Some (- maxTime)" "\<bar>- maxTime\<bar> \<le> maxTime"
    "0 < nextAddr ?a"
    by (simp_all add: mounted_def maxTime_def)
  have ac: "TimeClip (UTC (zone_fixed 0) (Some (LocalTime (zone_fixed 0) (- maxTime) + - 1 * msPerDay))) = None"
    by (simp add: TimeClip_def UTC_def LocalTime_def zone_fixed_def maxTime_def msPerDay_def)
  have a1: "after (keyDown (zone_fixed 0) 0 ''ArrowLeft'' ?a) = ?a1"
    using keyDown_move [OF a0 arrow_key_cases(1), of "zone_fixed 0" 0]
    unfolding ac by (simp add: mounted_def)
  have a2: "stateCell ?a1 = Some 1" "dates ?a1 1 = None"
    "''ArrowRight'' \<in> {''ArrowLeft'', ''ArrowRight'', ''ArrowUp'', ''ArrowDown''}"
    by simp_all
  have a3: "after (keyDown (zone_fixed 0) 0 ''ArrowRight'' ?a1) =
              ?a1\<lparr>dates := (dates ?a1)(2 := None), nextAddr := 3, stateCell := Some 2\<rparr>"
    using keyDown_move_invalid [OF a2, of "zone_fixed 0" 0] by (simp add: mounted_def)
  let ?b = "mounted (Some 1325282400000)"
  let ?b1 = "?b\<lparr>dates := (dates ?b)(1 := Some 1325282400000), nextAddr := 2, stateCell := Some 1\<rparr>"
  have b0: "stateCell ?b = Some 0" "dates ?b 0 = Some 1325282400000" "\<bar>1325282400000\<bar> \<le> maxTime"
    "0 < nextAddr ?b"
    by (simp_all add: mounted_def maxTime_def)
  have bc: "TimeClip (UTC zone_Apia (Some (LocalTime zone_Apia 1325282400000 + - 1 * msPerDay)))
              = Some 1325282400000"
    by (simp add: TimeClip_def UTC_def LocalTime_def zone_Apia_def zone_change_def
        maxTime_def msPerDay_def)
  have b1: "after (keyDown zone_Apia 0 ''ArrowLeft'' ?b) = ?b1"
    using keyDown_move [OF b0 arrow_key_cases(1), of zone_Apia 0]
    unfolding bc by (simp add: mounted_def)
  have b2: "stateCell ?b1 = Some 1" "dates ?b1 1 = Some 1325282400000"
    "\<bar>1325282400000\<bar> \<le> maxTime" "1 < nextAddr ?b1"
    by (simp_all add: maxTime_def)
  have bd: "TimeClip (UTC zone_Apia (Some (LocalTime zone_Apia 1325282400000 + 1 * msPerDay)))
              = Some 1325368800000"
    by (simp add: TimeClip_def UTC_def LocalTime_def zone_Apia_def zone_change_def
        maxTime_def msPerDay_def)
  have b3: "after (keyDown zone_Apia 0 ''ArrowRight'' ?b1) =
              ?b1\<lparr>dates := (dates ?b1)(2 := Some 1325368800000), nextAddr := 3, stateCell := Some 2\<rparr>"
    using keyDown_move [OF b2 arrow_key_cases(2), of zone_Apia 0]
    unfolding bd by (simp add: mounted_def)
  show ?thesis
    unfolding a1 a3 b1 b3 by simp
qed

text \<open>
  C10. The exported \<open>Datepicker\<close> is the reference \<open>Provider\<close> itself:
  \<open>Object.assign\<close> returns its target, and after it the object \<open>Provider\<close> carries the
  properties Picker, Input, Button, Items and Item beside the ones it had.
\<close>

theorem Datepicker_is_Provider:
  "fst (Datepicker c h) = Provider c
   \<and> snd (Datepicker c h) (Provider c) =
       (h (Provider c))
         (''Picker'' \<mapsto> Picker c, ''Input'' \<mapsto> Input c, ''Button'' \<mapsto> Button c,
          ''Items'' \<mapsto> Items c, ''Item'' \<mapsto> Item c)
   \<and> dom (snd (Datepicker c h) (Provider c)) =
       dom (h (Provider c)) \<union> {''Picker'', ''Input'', ''Button'', ''Items'', ''Item''}"
  by (auto simp add: Datepicker_eq)

end
